theory Spec2Isabelle
  imports Complex_Main "HOL-Library.Word" "HOL-Library.Sublist"
begin

unbundle bit_operations_syntax

section \<open>Byte buffers\<close>

text \<open>
  A \<open>Uint8Array\<close> is a list of 8-bit words. Indexing a typed array outside its range
  does not raise in JavaScript: it yields \<open>undefined\<close>, which is \<open>None\<close> here.
\<close>

type_synonym byte = "8 word"

definition byteAt :: "byte list \<Rightarrow> nat \<Rightarrow> byte option" where
  "byteAt data k = (if k < length data then Some (data ! k) else None)"

text \<open>
  A byte used where JavaScript wants a 32-bit integer (the operands of \<open>|\<close>, \<open>&\<close> and
  \<open><<\<close>): \<open>undefined\<close> converts to 0. The results of these operators are signed 32-bit
  integers, read with \<open>sint\<close>.
\<close>

definition toInt32 :: "byte option \<Rightarrow> 32 word" where
  "toInt32 v = (case v of None \<Rightarrow> 0 | Some b \<Rightarrow> ucast b)"

text \<open>\<open>data[a] | (data[a + 1] << 8)\<close>\<close>

definition le16 :: "byte list \<Rightarrow> nat \<Rightarrow> int" where
  "le16 data a = sint (toInt32 (byteAt data a) OR push_bit 8 (toInt32 (byteAt data (a + 1))))"

text \<open>\<open>data[a] | (data[a + 1] << 8) | (data[a + 2] << 16) | (data[a + 3] << 24)\<close>\<close>

definition le32 :: "byte list \<Rightarrow> nat \<Rightarrow> int" where
  "le32 data a =
     sint (toInt32 (byteAt data a) OR push_bit 8 (toInt32 (byteAt data (a + 1)))
           OR push_bit 16 (toInt32 (byteAt data (a + 2))) OR push_bit 24 (toInt32 (byteAt data (a + 3))))"

text \<open>\<open>data.slice(a, b)\<close> for \<open>0 \<le> a \<le> b\<close>: the end is clamped to the buffer.\<close>

definition slice :: "byte list \<Rightarrow> nat \<Rightarrow> nat \<Rightarrow> byte list" where
  "slice data a b = take (b - a) (drop a data)"

text \<open>
  Strings built from bytes. \<open>String.fromCharCode(b)\<close> for a byte \<open>b\<close> is the code unit
  \<open>b\<close>; such strings are modelled as lists of 8-bit characters. \<open>trim\<close> removes
  white space and line terminators at both ends; among the code units below 256 these
  are 9 to 13, 32 and 160.
\<close>

definition fromCharCode :: "nat \<Rightarrow> char" where
  "fromCharCode n = char_of n"

definition fromCharCodes :: "byte list \<Rightarrow> string" where
  "fromCharCodes bs = map (\<lambda>b. fromCharCode (unat b)) bs"

definition isWhiteSpace :: "char \<Rightarrow> bool" where
  "isWhiteSpace c = ((of_char c :: nat) \<in> {9, 10, 11, 12, 13, 32, 160})"

definition trim :: "string \<Rightarrow> string" where
  "trim s = rev (dropWhile isWhiteSpace (rev (dropWhile isWhiteSpace s)))"

section \<open>File carver (FileCarver.tsx)\<close>

datatype category = Image | Video | Audio | Document | Archive | Other

text \<open>
  \<open>FileSignature\<close> without its \<open>icon\<close>, which only the rendering uses. \<open>footer\<close> and
  \<open>maxSize\<close> are optional fields of the interface.
\<close>

record FileSignature =
  name :: string
  extension :: string
  header :: "byte list"
  footer :: "byte list option"
  maxSize :: "nat option"
  category :: category

record CarvedFile =
  ctype :: string
  cextension :: string
  offset :: nat
  csize :: int
  cdata :: "byte list"
  ccategory :: category
  confidence :: nat

definition mkSig ::
  "string \<Rightarrow> string \<Rightarrow> byte list \<Rightarrow> byte list option \<Rightarrow> nat \<Rightarrow> category \<Rightarrow> FileSignature" where
  "mkSig n e h f m c =
     \<lparr>name = n, extension = e, header = h, footer = f, maxSize = Some m, category = c\<rparr>"

definition fileSignatures :: "FileSignature list" where
  "fileSignatures =
    [mkSig ''JPEG'' ''jpg'' [0xFF, 0xD8, 0xFF] (Some [0xFF, 0xD9]) 50000000 Image,
     mkSig ''PNG'' ''png'' [0x89, 0x50, 0x4E, 0x47, 0x0D, 0x0A, 0x1A, 0x0A]
       (Some [0x49, 0x45, 0x4E, 0x44, 0xAE, 0x42, 0x60, 0x82]) 50000000 Image,
     mkSig ''GIF'' ''gif'' [0x47, 0x49, 0x46, 0x38] (Some [0x00, 0x3B]) 20000000 Image,
     mkSig ''BMP'' ''bmp'' [0x42, 0x4D] None 50000000 Image,
     mkSig ''WebP'' ''webp'' [0x52, 0x49, 0x46, 0x46] None 50000000 Image,
     mkSig ''MP4'' ''mp4'' [0x00, 0x00, 0x00] None 500000000 Video,
     mkSig ''AVI'' ''avi'' [0x52, 0x49, 0x46, 0x46] None 500000000 Video,
     mkSig ''MKV'' ''mkv'' [0x1A, 0x45, 0xDF, 0xA3] None 500000000 Video,
     mkSig ''MP3'' ''mp3'' [0x49, 0x44, 0x33] None 50000000 Audio,
     mkSig ''WAV'' ''wav'' [0x52, 0x49, 0x46, 0x46] None 100000000 Audio,
     mkSig ''OGG'' ''ogg'' [0x4F, 0x67, 0x67, 0x53] None 50000000 Audio,
     mkSig ''PDF'' ''pdf'' [0x25, 0x50, 0x44, 0x46]
       (Some [0x25, 0x25, 0x45, 0x4F, 0x46]) 100000000 Document,
     mkSig ''DOCX/ZIP'' ''zip'' [0x50, 0x4B, 0x03, 0x04] None 100000000 Document,
     mkSig ''RTF'' ''rtf'' [0x7B, 0x5C, 0x72, 0x74, 0x66] None 50000000 Document,
     mkSig ''RAR'' ''rar'' [0x52, 0x61, 0x72, 0x21] None 500000000 Archive,
     mkSig ''7Z'' ''7z'' [0x37, 0x7A, 0xBC, 0xAF, 0x27, 0x1C] None 500000000 Archive,
     mkSig ''GZIP'' ''gz'' [0x1F, 0x8B] None 500000000 Archive,
     mkSig ''EXE'' ''exe'' [0x4D, 0x5A] None 100000000 Other,
     mkSig ''ELF'' ''elf'' [0x7F, 0x45, 0x4C, 0x46] None 100000000 Other]"

text \<open>
  The inner comparison loop of \<open>matchHeader\<close> and of \<open>findFooter\<close>: the pattern is
  compared byte by byte from index \<open>k\<close> and the loop leaves at the first difference.
\<close>

fun bytesMatch :: "byte list \<Rightarrow> nat \<Rightarrow> byte list \<Rightarrow> bool" where
  "bytesMatch data k [] = True"
| "bytesMatch data k (p # ps) =
     (if byteAt data k \<noteq> Some p then False else bytesMatch data (Suc k) ps)"

definition matchHeader :: "byte list \<Rightarrow> nat \<Rightarrow> byte list \<Rightarrow> bool" where
  "matchHeader data offs hdr =
     (if offs + length hdr > length data then False else bytesMatch data offs hdr)"

text \<open>
  \<open>findFooter\<close>: the loop over \<open>i\<close> from \<open>startOffset + 10\<close> while \<open>i < searchEnd\<close>.
  \<open>searchEnd\<close> is an integer, since \<open>data.length - footer.length\<close> can be negative.
  The source returns \<open>-1\<close> when nothing is found; that is \<open>None\<close> here.
\<close>

function findFooterLoop :: "byte list \<Rightarrow> byte list \<Rightarrow> int \<Rightarrow> nat \<Rightarrow> nat option" where
  "findFooterLoop data ftr searchEnd i =
     (if int i < searchEnd
      then (if bytesMatch data i ftr then Some (i + length ftr)
            else findFooterLoop data ftr searchEnd (Suc i))
      else None)"
  by pat_completeness auto
termination
  by (relation "measure (\<lambda>(data, ftr, searchEnd, i). nat (searchEnd - int i))") auto

declare findFooterLoop.simps [simp del]

definition findFooter :: "byte list \<Rightarrow> nat \<Rightarrow> byte list \<Rightarrow> nat \<Rightarrow> nat option" where
  "findFooter data startOffset ftr maxSz =
     (let searchEnd = min (int startOffset + int maxSz) (int (length data) - int (length ftr))
      in findFooterLoop data ftr searchEnd (startOffset + 10))"

text \<open>\<open>sig.maxSize || d\<close>: the default is taken when the field is absent or 0.\<close>

definition orDefault :: "nat option \<Rightarrow> nat \<Rightarrow> nat" where
  "orDefault m d = (case m of None \<Rightarrow> d | Some v \<Rightarrow> (if v = 0 then d else v))"

text \<open>
  The body of the loop over the active signatures at offset \<open>i\<close>, up to the test on
  \<open>fileSize\<close>: the end offset and the confidence for a signature whose header matched.
\<close>

definition carveEnd :: "byte list \<Rightarrow> nat \<Rightarrow> FileSignature \<Rightarrow> nat \<times> nat" where
  "carveEnd data i sig =
     (case footer sig of
        Some ftr \<Rightarrow>
          (case findFooter data i ftr (orDefault (maxSize sig) 10000000) of
             None \<Rightarrow> (min (i + orDefault (maxSize sig) 1000000) (length data), 50)
           | Some e \<Rightarrow> (e, 95))
      | None \<Rightarrow> (min (i + orDefault (maxSize sig) 1000000) (length data), 60))"

text \<open>
  The loop \<open>for (const sig of activeSignatures)\<close> at offset \<open>i\<close>. It returns the carved
  file and its end offset at the first signature that is accepted (the \<open>break\<close>), and
  \<open>None\<close> when the loop runs to its end.
\<close>

fun trySignatures :: "byte list \<Rightarrow> nat \<Rightarrow> FileSignature list \<Rightarrow> (CarvedFile \<times> nat) option" where
  "trySignatures data i [] = None"
| "trySignatures data i (sig # sigs) =
     (if matchHeader data i (header sig)
      then (let (endOffset, conf) = carveEnd data i sig;
                fileSize = int endOffset - int i
            in if fileSize > 100 \<and> fileSize < int (orDefault (maxSize sig) 100000000)
               then Some (\<lparr>ctype = name sig, cextension = extension sig, offset = i,
                           csize = fileSize, cdata = take (endOffset - i) (drop i data),
                           ccategory = category sig, confidence = conf\<rparr>, endOffset)
               else trySignatures data i sigs)
      else trySignatures data i sigs)"

lemma trySignatures_advances:
  "trySignatures data i sigs = Some (f, e) \<Longrightarrow> i < e"
  by (induction sigs) (auto split: if_splits prod.splits simp: Let_def)

text \<open>
  The outer loop of \<open>carveFiles\<close>. After an accepted file the source sets
  \<open>i = endOffset - 1\<close> and the loop's \<open>i++\<close> follows, so the scan resumes at
  \<open>endOffset\<close>. The progress update and the \<open>await\<close> every 100000 bytes touch only the
  user interface and are left out.
\<close>

function carveLoop :: "byte list \<Rightarrow> FileSignature list \<Rightarrow> nat \<Rightarrow> CarvedFile list \<Rightarrow> CarvedFile list" where
  "carveLoop data sigs i carved =
     (if i < length data
      then (case trySignatures data i sigs of
              Some (f, endOffset) \<Rightarrow> carveLoop data sigs endOffset (carved @ [f])
            | None \<Rightarrow> carveLoop data sigs (Suc i) carved)
      else carved)"
  by pat_completeness auto
termination
proof (relation "measure (\<lambda>(data, sigs, i, carved). length data - i)")
  show "wf (measure (\<lambda>(data, sigs, i, carved). length data - i))" by simp
next
  fix data :: "byte list" and sigs i and carved :: "CarvedFile list" and x2 x y
  assume "i < length data" "trySignatures data i sigs = Some x2" "(x, y) = x2"
  then have "i < y" using trySignatures_advances [of data i sigs x y] by simp
  with \<open>i < length data\<close>
  show "((data, sigs, y, carved @ [x]), (data, sigs, i, carved))
          \<in> measure (\<lambda>(data, sigs, i, carved). length data - i)"
    by simp
next
  fix data :: "byte list" and sigs :: "FileSignature list" and i and carved :: "CarvedFile list"
  assume "i < length data"
  then show "((data, sigs, Suc i, carved), (data, sigs, i, carved))
          \<in> measure (\<lambda>(data, sigs, i, carved). length data - i)"
    by simp
qed

declare carveLoop.simps [simp del]

definition carveFiles :: "byte list \<Rightarrow> category set \<Rightarrow> CarvedFile list" where
  "carveFiles data selectedCategories =
     carveLoop data (filter (\<lambda>sig. category sig \<in> selectedCategories) fileSignatures) 0 []"


section \<open>The carver with every read checked\<close>

text \<open>
  To state that the carver never reads outside the buffer, each function of the carver
  is given a second form in which a read \<open>data[k]\<close> with \<open>k \<ge> data.length\<close> is a
  fault instead of \<open>undefined\<close>. The two forms have the same structure, read for read.
  The lemmas between the definitions are what the termination proof of the checked
  outer loop needs: the checked inner functions return what the unchecked ones return.
\<close>

datatype fault = OutOfBounds

definition atC :: "byte list \<Rightarrow> nat \<Rightarrow> fault + byte" where
  "atC data k = (if k < length data then Inr (data ! k) else Inl OutOfBounds)"

fun bytesMatchC :: "byte list \<Rightarrow> nat \<Rightarrow> byte list \<Rightarrow> fault + bool" where
  "bytesMatchC data k [] = Inr True"
| "bytesMatchC data k (p # ps) =
     (case atC data k of
        Inl e \<Rightarrow> Inl e
      | Inr b \<Rightarrow> (if b \<noteq> p then Inr False else bytesMatchC data (Suc k) ps))"

definition matchHeaderC :: "byte list \<Rightarrow> nat \<Rightarrow> byte list \<Rightarrow> fault + bool" where
  "matchHeaderC data offs hdr =
     (if offs + length hdr > length data then Inr False else bytesMatchC data offs hdr)"

function findFooterLoopC :: "byte list \<Rightarrow> byte list \<Rightarrow> int \<Rightarrow> nat \<Rightarrow> fault + nat option" where
  "findFooterLoopC data ftr searchEnd i =
     (if int i < searchEnd
      then (case bytesMatchC data i ftr of
              Inl e \<Rightarrow> Inl e
            | Inr m \<Rightarrow> (if m then Inr (Some (i + length ftr))
                        else findFooterLoopC data ftr searchEnd (Suc i)))
      else Inr None)"
  by pat_completeness auto
termination
  by (relation "measure (\<lambda>(data, ftr, searchEnd, i). nat (searchEnd - int i))") auto

declare findFooterLoopC.simps [simp del]

definition findFooterC :: "byte list \<Rightarrow> nat \<Rightarrow> byte list \<Rightarrow> nat \<Rightarrow> fault + nat option" where
  "findFooterC data startOffset ftr maxSz =
     (let searchEnd = min (int startOffset + int maxSz) (int (length data) - int (length ftr))
      in findFooterLoopC data ftr searchEnd (startOffset + 10))"

definition carveEndC :: "byte list \<Rightarrow> nat \<Rightarrow> FileSignature \<Rightarrow> fault + nat \<times> nat" where
  "carveEndC data i sig =
     (case footer sig of
        Some ftr \<Rightarrow>
          (case findFooterC data i ftr (orDefault (maxSize sig) 10000000) of
             Inl e \<Rightarrow> Inl e
           | Inr None \<Rightarrow> Inr (min (i + orDefault (maxSize sig) 1000000) (length data), 50)
           | Inr (Some e) \<Rightarrow> Inr (e, 95))
      | None \<Rightarrow> Inr (min (i + orDefault (maxSize sig) 1000000) (length data), 60))"

fun trySignaturesC ::
  "byte list \<Rightarrow> nat \<Rightarrow> FileSignature list \<Rightarrow> fault + (CarvedFile \<times> nat) option" where
  "trySignaturesC data i [] = Inr None"
| "trySignaturesC data i (sig # sigs) =
     (case matchHeaderC data i (header sig) of
        Inl e \<Rightarrow> Inl e
      | Inr m \<Rightarrow>
          (if m
           then (case carveEndC data i sig of
                   Inl e \<Rightarrow> Inl e
                 | Inr (endOffset, conf) \<Rightarrow>
                     (let fileSize = int endOffset - int i
                      in if fileSize > 100 \<and> fileSize < int (orDefault (maxSize sig) 100000000)
                         then Inr (Some (\<lparr>ctype = name sig, cextension = extension sig,
                                 offset = i, csize = fileSize,
                                 cdata = take (endOffset - i) (drop i data),
                                 ccategory = category sig, confidence = conf\<rparr>, endOffset))
                         else trySignaturesC data i sigs))
           else trySignaturesC data i sigs))"

lemma bytesMatchC_in_bounds:
  "k + length ps \<le> length data \<Longrightarrow> bytesMatchC data k ps = Inr (bytesMatch data k ps)"
  by (induction ps arbitrary: k) (auto simp: atC_def byteAt_def)

lemma matchHeaderC_eq: "matchHeaderC data offs hdr = Inr (matchHeader data offs hdr)"
  by (simp add: matchHeaderC_def matchHeader_def bytesMatchC_in_bounds)

lemma findFooterLoopC_eq:
  "searchEnd \<le> int (length data) - int (length ftr) \<Longrightarrow>
   findFooterLoopC data ftr searchEnd i = Inr (findFooterLoop data ftr searchEnd i)"
proof (induction data ftr searchEnd i rule: findFooterLoop.induct)
  case (1 data ftr searchEnd i)
  show ?case
  proof (cases "int i < searchEnd")
    case False
    then show ?thesis
      by (simp add: findFooterLoopC.simps [of data ftr searchEnd i]
          findFooterLoop.simps [of data ftr searchEnd i])
  next
    case True
    with "1.prems" have "i + length ftr \<le> length data" by linarith
    then have bm: "bytesMatchC data i ftr = Inr (bytesMatch data i ftr)"
      by (rule bytesMatchC_in_bounds)
    show ?thesis
    proof (cases "bytesMatch data i ftr")
      case True
      with \<open>int i < searchEnd\<close> bm show ?thesis
        by (simp add: findFooterLoopC.simps [of data ftr searchEnd i]
            findFooterLoop.simps [of data ftr searchEnd i])
    next
      case False
      with \<open>int i < searchEnd\<close> bm "1.IH" [OF \<open>int i < searchEnd\<close> False "1.prems"]
      show ?thesis
        by (simp add: findFooterLoopC.simps [of data ftr searchEnd i]
            findFooterLoop.simps [of data ftr searchEnd i])
    qed
  qed
qed

lemma findFooterC_eq: "findFooterC data s ftr m = Inr (findFooter data s ftr m)"
  by (simp add: findFooterC_def findFooter_def Let_def findFooterLoopC_eq)

lemma carveEndC_eq: "carveEndC data i sig = Inr (carveEnd data i sig)"
  by (simp add: carveEndC_def carveEnd_def findFooterC_eq split: option.splits)

lemma trySignaturesC_eq: "trySignaturesC data i sigs = Inr (trySignatures data i sigs)"
proof (induction sigs)
  case Nil
  show ?case by simp
next
  case (Cons sig sigs)
  obtain e c where ce: "carveEnd data i sig = (e, c)" by (cases "carveEnd data i sig")
  show ?case
    by (simp add: matchHeaderC_eq carveEndC_eq ce Cons.IH Let_def)
qed

function carveLoopC ::
  "byte list \<Rightarrow> FileSignature list \<Rightarrow> nat \<Rightarrow> CarvedFile list \<Rightarrow> fault + CarvedFile list" where
  "carveLoopC data sigs i carved =
     (if i < length data
      then (case trySignaturesC data i sigs of
              Inl e \<Rightarrow> Inl e
            | Inr (Some (f, endOffset)) \<Rightarrow> carveLoopC data sigs endOffset (carved @ [f])
            | Inr None \<Rightarrow> carveLoopC data sigs (Suc i) carved)
      else Inr carved)"
  by pat_completeness auto
termination
proof (relation "measure (\<lambda>(data, sigs, i, carved). length data - i)")
  show "wf (measure (\<lambda>(data, sigs, i, carved). length data - i))" by simp
next
  fix data :: "byte list" and sigs i and carved :: "CarvedFile list" and x2 x2a x y
  assume "i < length data" "trySignaturesC data i sigs = Inr x2" "x2 = Some x2a" "(x, y) = x2a"
  then have "trySignatures data i sigs = Some (x, y)" by (simp add: trySignaturesC_eq)
  then have "i < y" by (rule trySignatures_advances)
  with \<open>i < length data\<close>
  show "((data, sigs, y, carved @ [x]), (data, sigs, i, carved))
          \<in> measure (\<lambda>(data, sigs, i, carved). length data - i)"
    by simp
next
  fix data :: "byte list" and sigs :: "FileSignature list" and i and carved :: "CarvedFile list"
    and x2 :: "(CarvedFile \<times> nat) option"
  assume "i < length data"
  then show "((data, sigs, Suc i, carved), (data, sigs, i, carved))
          \<in> measure (\<lambda>(data, sigs, i, carved). length data - i)"
    by simp
qed

declare carveLoopC.simps [simp del]

definition carveFilesC :: "byte list \<Rightarrow> category set \<Rightarrow> fault + CarvedFile list" where
  "carveFilesC data selectedCategories =
     carveLoopC data (filter (\<lambda>sig. category sig \<in> selectedCategories) fileSignatures) 0 []"

text \<open>Buffers used below: a 101-byte BMP stub, and the PNG signature's header and footer.\<close>

definition bmp101 :: "byte list" where
  "bmp101 = [0x42, 0x4D] @ replicate 99 0"




section \<open>Signature detector (HashAnalyzer.tsx, FileSignatureDetector)\<close>

text \<open>
  The detector's \<open>FileSignature\<close> is a different interface from the carver's; it is
  \<open>DetectorSignature\<close> here, its catalog \<open>detectorSignatures\<close> and its extension field
  \<open>dextension\<close>. The fields \<open>description\<close> and \<open>category\<close> hold Arabic display text that
  no computation reads; they are left out.
\<close>

record DetectorSignature =
  hex :: string
  dextension :: string

record DetectionResult =
  detectedType :: "DetectorSignature option"
  actualExtension :: string
  headerHex :: string
  isMatch :: bool
  isSuspicious :: bool

definition mkDet :: "string \<Rightarrow> string \<Rightarrow> DetectorSignature" where
  "mkDet h e = \<lparr>hex = h, dextension = e\<rparr>"

definition detectorSignatures :: "DetectorSignature list" where
  "detectorSignatures =
    [mkDet ''89504E47'' ''PNG'',
     mkDet ''FFD8FFE0'' ''JPG'',
     mkDet ''FFD8FFE1'' ''JPG'',
     mkDet ''FFD8FFDB'' ''JPG'',
     mkDet ''47494638'' ''GIF'',
     mkDet ''52494646'' ''WEBP'',
     mkDet ''25504446'' ''PDF'',
     mkDet ''504B0304'' ''ZIP/DOCX/XLSX'',
     mkDet ''504B0506'' ''ZIP'',
     mkDet ''52617221'' ''RAR'',
     mkDet ''1F8B0800'' ''GZ'',
     mkDet ''377ABCAF'' ''7Z'',
     mkDet ''4D5A9000'' ''EXE'',
     mkDet ''7F454C46'' ''ELF'',
     mkDet ''49443303'' ''MP3'',
     mkDet ''FFFB9000'' ''MP3'',
     mkDet ''00000020'' ''MP4'',
     mkDet ''00000018'' ''MP4'',
     mkDet ''1A45DFA3'' ''MKV/WEBM'',
     mkDet ''D0CF11E0'' ''DOC/XLS/PPT'']"

text \<open>
  \<open>b.toString(16).padStart(2, '0').toUpperCase()\<close>: two upper-case hexadecimal digits
  for each byte, joined.
\<close>

definition hexDigit :: "nat \<Rightarrow> char" where
  "hexDigit n = ''0123456789ABCDEF'' ! n"

definition toHex2 :: "byte \<Rightarrow> string" where
  "toHex2 b = [hexDigit (unat b div 16), hexDigit (unat b mod 16)]"

definition toHex :: "byte list \<Rightarrow> string" where
  "toHex bytes = concat (map toHex2 bytes)"

text \<open>
  \<open>extension.toUpperCase()\<close>, on the ASCII letters. Strings are lists of 8-bit
  characters here; the catalog's extensions are ASCII, and what JavaScript does to
  letters outside ASCII is not modelled.
\<close>

definition toUpperChar :: "char \<Rightarrow> char" where
  "toUpperChar c =
     (case map_of (zip ''abcdefghijklmnopqrstuvwxyz'' ''ABCDEFGHIJKLMNOPQRSTUVWXYZ'') c of
        None \<Rightarrow> c
      | Some u \<Rightarrow> u)"

definition toUpperCase :: "string \<Rightarrow> string" where
  "toUpperCase s = map toUpperChar s"

text \<open>
  The loop \<open>for (const sig of fileSignatures)\<close> with its \<open>break\<close> at the first
  signature for which \<open>headerHex.startsWith(sig.hex)\<close>.
\<close>

fun detectLoop :: "DetectorSignature list \<Rightarrow> string \<Rightarrow> DetectorSignature option" where
  "detectLoop [] h = None"
| "detectLoop (sig # sigs) h = (if prefix (hex sig) h then Some sig else detectLoop sigs h)"

text \<open>
  \<open>String.includes\<close> is \<open>sublist\<close> (a contiguous run), \<open>startsWith\<close> is \<open>prefix\<close>.
  With no detected type, \<open>isMatch\<close> is \<open>undefined || false\<close>, which is falsy.
\<close>

definition detectSignature :: "byte list \<Rightarrow> string \<Rightarrow> DetectionResult" where
  "detectSignature buffer ext =
     (let bytes = take 8 buffer;
          headerHex = toHex bytes;
          detectedType = detectLoop detectorSignatures headerHex;
          actualExt = toUpperCase ext;
          isMatch = (case detectedType of
                       None \<Rightarrow> False
                     | Some sig \<Rightarrow>
                         sublist actualExt (dextension sig)
                         \<or> (dextension sig = ''ZIP/DOCX/XLSX''
                            \<and> actualExt \<in> set [''DOCX'', ''XLSX'', ''PPTX'', ''ZIP'']));
          isSuspicious = (detectedType \<noteq> None \<and> \<not> isMatch)
      in \<lparr>detectedType = detectedType, actualExtension = actualExt, headerHex = headerHex,
          isMatch = isMatch, isSuspicious = isSuspicious\<rparr>)"

text \<open>
  For stating properties only: the bytes that a catalog entry's hexadecimal string
  denotes, and the alias set of a signature as the specification describes it (the
  names separated by \<open>/\<close> in its extension; DOCX, XLSX, PPTX and ZIP for the
  ZIP/DOCX/XLSX signature).
\<close>

definition hexVal :: "char \<Rightarrow> nat" where
  "hexVal c = (let n = (of_char c :: nat) in if n < 58 then n - 48 else n - 55)"

fun headerBytes :: "string \<Rightarrow> byte list" where
  "headerBytes (a # b # rest) = of_nat (hexVal a * 16 + hexVal b) # headerBytes rest"
| "headerBytes _ = []"



section \<open>File-system analyzer: FAT (HexViewer.tsx, FileSystemAnalyzer)\<close>

datatype fragmentStatus = Complete | Partial | Fragmented

text \<open>
  \<open>FileEntry\<close>. The time stamps are never set by the parsers and are left out. \<open>size\<close>
  and \<open>cluster\<close> come from bitwise operators, so they are signed 32-bit integers.
\<close>

record FileEntry =
  entryName :: string
  entryPath :: string
  entrySize :: int
  isDirectory :: bool
  isDeleted :: bool
  cluster :: int
  attributes :: "string list"
  recoverable :: bool
  fragmentStatus :: fragmentStatus

text \<open>
  The fields of \<open>AnalysisResult\<close> that \<open>parseFAT\<close> and \<open>parseNTFS\<close> return (both return a
  \<open>Partial<AnalysisResult>\<close>). \<open>clusterSize\<close> is a product with \<open>data[13]\<close>, which is \<open>NaN\<close>
  (\<open>None\<close> here) when the buffer has no byte 13.
\<close>

record AnalysisResult =
  files :: "FileEntry list"
  deletedFiles :: "FileEntry list"
  clusterSize :: "int option"
  fatType :: "string option"
  ntfsVersion :: "string option"


definition bytesPerSector :: "byte list \<Rightarrow> int" where
  "bytesPerSector data = le16 data 11"

definition reservedSectors :: "byte list \<Rightarrow> int" where
  "reservedSectors data = le16 data 14"

definition rootEntryCount :: "byte list \<Rightarrow> int" where
  "rootEntryCount data = le16 data 17"

text \<open>
  \<open>rootDirStart = reservedSectors * bytesPerSector + (numFATs * data[22]) * bytesPerSector\<close>:
  \<open>NaN\<close> when \<open>data[16]\<close> or \<open>data[22]\<close> is \<open>undefined\<close>.
\<close>

definition rootDirStart :: "byte list \<Rightarrow> int option" where
  "rootDirStart data =
     (case (byteAt data 16, byteAt data 22) of
        (Some numFATs, Some b22) \<Rightarrow>
          Some (reservedSectors data * bytesPerSector data
                + (uint numFATs * uint b22) * bytesPerSector data)
      | _ \<Rightarrow> None)"

definition deletedEntry :: "byte list \<Rightarrow> nat \<Rightarrow> FileEntry option" where
  "deletedEntry data entryOffset =
     (let nm = trim (fromCharCodes (slice data (entryOffset + 1) (entryOffset + 8)));
          ext = trim (fromCharCodes (slice data (entryOffset + 8) (entryOffset + 11)));
          sz = le32 data (entryOffset + 28);
          cl = le16 data (entryOffset + 26)
      in if nm \<noteq> []
         then Some \<lparr>entryName = ''_'' @ nm @ (if ext \<noteq> [] then ''.'' @ ext else []),
                    entryPath = ''/_'' @ nm @ (if ext \<noteq> [] then ''.'' @ ext else []),
                    entrySize = sz, isDirectory = False, isDeleted = True, cluster = cl,
                    attributes = [], recoverable = (cl > 0 \<and> sz > 0),
                    fragmentStatus = Partial\<rparr>
         else None)"

definition activeEntry :: "byte list \<Rightarrow> nat \<Rightarrow> FileEntry option" where
  "activeEntry data entryOffset =
     (let nm = trim (fromCharCodes (slice data entryOffset (entryOffset + 8)));
          ext = trim (fromCharCodes (slice data (entryOffset + 8) (entryOffset + 11)));
          attr = toInt32 (byteAt data (entryOffset + 11));
          sz = le32 data (entryOffset + 28);
          attrs = (if attr AND 0x01 \<noteq> 0 then [''Read-Only''] else [])
                @ (if attr AND 0x02 \<noteq> 0 then [''Hidden''] else [])
                @ (if attr AND 0x04 \<noteq> 0 then [''System''] else [])
                @ (if attr AND 0x10 \<noteq> 0 then [''Directory''] else [])
                @ (if attr AND 0x20 \<noteq> 0 then [''Archive''] else []);
          isDir = (attr AND 0x10 \<noteq> 0)
      in if nm \<noteq> []
         then Some \<lparr>entryName = nm @ (if ext \<noteq> [] \<and> \<not> isDir then ''.'' @ ext else []),
                    entryPath = ''/'' @ nm @ (if ext \<noteq> [] \<and> \<not> isDir then ''.'' @ ext else []),
                    entrySize = sz, isDirectory = isDir, isDeleted = False,
                    cluster = le16 data (entryOffset + 26),
                    attributes = attrs, recoverable = True, fragmentStatus = Complete\<rparr>
         else None)"

text \<open>\<open>xs.push(e)\<close> under its \<open>if\<close>: nothing is pushed when the entry has no name.\<close>

definition push :: "'a list \<Rightarrow> 'a option \<Rightarrow> 'a list" where
  "push xs e = (case e of None \<Rightarrow> xs | Some x \<Rightarrow> xs @ [x])"

text \<open>
  The loop over the root directory entries,
  \<open>for (i = 0; i < rootEntryCount && rootDirStart + i * 32 < data.length; i++)\<close>,
  with the two result lists as its state.
\<close>

function fatLoop ::
  "byte list \<Rightarrow> int \<Rightarrow> int \<Rightarrow> nat \<Rightarrow> FileEntry list \<times> FileEntry list
     \<Rightarrow> FileEntry list \<times> FileEntry list" where
  "fatLoop data count start i (fs, ds) =
     (if int i < count \<and> start + int i * 32 < int (length data)
      then (let entryOffset = nat (start + int i * 32);
                firstByte = byteAt data entryOffset
            in if firstByte = Some 0x00 then (fs, ds)
               else if firstByte = Some 0xE5
               then fatLoop data count start (Suc i) (fs, push ds (deletedEntry data entryOffset))
               else if firstByte \<noteq> Some 0x00 \<and> firstByte \<noteq> Some 0x2E
               then fatLoop data count start (Suc i) (push fs (activeEntry data entryOffset), ds)
               else fatLoop data count start (Suc i) (fs, ds))
      else (fs, ds))"
  by pat_completeness auto
termination
  by (relation "measure (\<lambda>(data, count, start, i, st). nat (count - int i))") auto

declare fatLoop.simps [simp del]

definition parseFAT :: "byte list \<Rightarrow> AnalysisResult" where
  "parseFAT data =
     (let clSize = (case byteAt data 13 of
                      None \<Rightarrow> None
                    | Some sectorsPerCluster \<Rightarrow> Some (bytesPerSector data * uint sectorsPerCluster));
          (fs, ds) = (case rootDirStart data of
                        None \<Rightarrow> ([], [])
                      | Some start \<Rightarrow> fatLoop data (rootEntryCount data) start 0 ([], []))
      in \<lparr>files = fs, deletedFiles = ds, clusterSize = clSize, fatType = Some ''FAT32'',
          ntfsVersion = None\<rparr>)"

text \<open>
  A synthetic FAT32 image of 320 bytes: 128-byte sectors, one reserved sector holding the
  boot sector with the label \<open>FAT32\<close> at offset 82, one FAT of one sector, a root
  directory of 16 slots at offset 256 whose first entry is the deleted file
  \<open>?ELETED.TXT\<close> (first cluster 3, 1000 bytes) and whose second entry is empty.
\<close>

definition fatImage :: "byte list" where
  "fatImage =
     replicate 11 0 @ [0x80, 0x00, 0x01, 0x01, 0x00, 0x01, 0x10, 0x00] @ replicate 3 0
     @ [0x01] @ replicate 59 0 @ [0x46, 0x41, 0x54, 0x33, 0x32, 0x20, 0x20, 0x20]
     @ replicate 166 0
     @ [0xE5, 0x45, 0x4C, 0x45, 0x54, 0x45, 0x44, 0x20, 0x54, 0x58, 0x54, 0x20]
     @ replicate 14 0 @ [0x03, 0x00, 0xE8, 0x03, 0x00, 0x00]
     @ replicate 32 0"

section \<open>File-system analyzer: NTFS (HexViewer.tsx, FileSystemAnalyzer)\<close>



















section \<open>EXIF and GPS extractor (GPSExtractor.tsx)\<close>

subsection \<open>DataView reads\<close>

text \<open>
  \<open>DataView.getUint8\<close>, \<open>getUint16\<close> and \<open>getUint32\<close> throw a \<open>RangeError\<close> when the bytes
  they read do not lie inside the buffer. Every offset the extractor computes is a
  non-negative integer below \<open>2^53\<close>, so offsets are natural numbers.
\<close>

datatype jsError = RangeError

definition bindE :: "'e + 'a \<Rightarrow> ('a \<Rightarrow> 'e + 'b) \<Rightarrow> 'e + 'b" where
  "bindE m f = (case m of Inl e \<Rightarrow> Inl e | Inr x \<Rightarrow> f x)"

lemma bindE_simps [simp]:
  "bindE (Inl e) f = Inl e" "bindE (Inr x) f = f x"
  by (simp_all add: bindE_def)

definition getUint8 :: "byte list \<Rightarrow> nat \<Rightarrow> jsError + nat" where
  "getUint8 dv off = (if off + 1 \<le> length dv then Inr (unat (dv ! off)) else Inl RangeError)"

definition getUint16 :: "byte list \<Rightarrow> nat \<Rightarrow> bool \<Rightarrow> jsError + nat" where
  "getUint16 dv off littleEndian =
     (if off + 2 \<le> length dv
      then (let b0 = unat (dv ! off); b1 = unat (dv ! (off + 1))
            in Inr (if littleEndian then b0 + 256 * b1 else 256 * b0 + b1))
      else Inl RangeError)"

definition getUint32 :: "byte list \<Rightarrow> nat \<Rightarrow> bool \<Rightarrow> jsError + nat" where
  "getUint32 dv off littleEndian =
     (if off + 4 \<le> length dv
      then (let b0 = unat (dv ! off); b1 = unat (dv ! (off + 1));
                b2 = unat (dv ! (off + 2)); b3 = unat (dv ! (off + 3))
            in Inr (if littleEndian then b0 + 256 * b1 + 65536 * b2 + 16777216 * b3
                    else 16777216 * b0 + 65536 * b1 + 256 * b2 + b3))
      else Inl RangeError)"

subsection \<open>Numbers\<close>

text \<open>
  The GPS values are JavaScript numbers computed by \<open>/\<close> and \<open>+\<close> from unsigned 32-bit
  integers. Division by zero does not throw: it gives \<open>Infinity\<close>, or \<open>NaN\<close> for \<open>0 / 0\<close>.
  A finite value is kept as the exact rational; the rounding to a double is not
  modelled (it changes neither the sign of a value nor whether it is finite).
\<close>

datatype jsnum = Finite rat | PosInfinity | NegInfinity | NaN

definition jsDivide :: "nat \<Rightarrow> nat \<Rightarrow> jsnum" where
  "jsDivide n d = (if d = 0 then (if n = 0 then NaN else PosInfinity)
                   else Finite (of_nat n / of_nat d))"

text \<open>\<open>x / c\<close> for a positive constant \<open>c\<close>.\<close>

fun jsDivideBy :: "jsnum \<Rightarrow> nat \<Rightarrow> jsnum" where
  "jsDivideBy (Finite q) c = Finite (q / of_nat c)"
| "jsDivideBy x c = x"

fun jsAdd :: "jsnum \<Rightarrow> jsnum \<Rightarrow> jsnum" where
  "jsAdd NaN y = NaN"
| "jsAdd x NaN = NaN"
| "jsAdd (Finite a) (Finite b) = Finite (a + b)"
| "jsAdd PosInfinity NegInfinity = NaN"
| "jsAdd NegInfinity PosInfinity = NaN"
| "jsAdd PosInfinity y = PosInfinity"
| "jsAdd NegInfinity y = NegInfinity"
| "jsAdd (Finite a) y = y"

fun jsNegate :: "jsnum \<Rightarrow> jsnum" where
  "jsNegate (Finite q) = Finite (- q)"
| "jsNegate PosInfinity = NegInfinity"
| "jsNegate NegInfinity = PosInfinity"
| "jsNegate NaN = NaN"

text \<open>Decimal digits of a natural number, as \<open>toString\<close> prints an integer below \<open>10^21\<close>.\<close>

fun showNat :: "nat \<Rightarrow> string" where
  "showNat n = (if n < 10 then [''0123456789'' ! n]
                else showNat (n div 10) @ [''0123456789'' ! (n mod 10)])"

declare showNat.simps [simp del]

text \<open>\<open>Math.floor(x).toString().padStart(2, '0')\<close> for a number \<open>x\<close> that is not negative.\<close>

definition padStart2 :: "string \<Rightarrow> string" where
  "padStart2 s = (if length s < 2 then replicate (2 - length s) CHR ''0'' @ s else s)"

fun floorString :: "jsnum \<Rightarrow> string" where
  "floorString (Finite q) = showNat (nat \<lfloor>q\<rfloor>)"
| "floorString PosInfinity = ''Infinity''"
| "floorString NegInfinity = ''-Infinity''"
| "floorString NaN = ''NaN''"


subsection \<open>Results\<close>

record GPSData =
  latitude :: "jsnum option"
  longitude :: "jsnum option"
  altitude :: "jsnum option"
  latitudeRef :: string
  longitudeRef :: string
  timestamp :: "string option"
  datestamp :: "string option"
  direction :: "jsnum option"
  speed :: "jsnum option"
  accuracy :: string

text \<open>\<open>cameraInfo\<close>, fields \<open>make\<close>, \<open>model\<close> and \<open>software\<close>.\<close>

record CameraInfo =
  cameraMake :: "string option"
  cameraModel :: "string option"
  cameraSoftware :: "string option"

text \<open>
  The part of \<open>ImageGPSResult\<close> that \<open>parseExifGPS\<close> fills; \<open>fileName\<close>, \<open>fileSize\<close> and
  \<open>preview\<close> are added by the upload handler.
\<close>

record ExifResult =
  gpsData :: "GPSData option"
  cameraInfo :: CameraInfo
  dateTime :: "string option"
  hasGPS :: bool

definition emptyResult :: ExifResult where
  "emptyResult = \<lparr>gpsData = None,
                   cameraInfo = \<lparr>cameraMake = None, cameraModel = None, cameraSoftware = None\<rparr>,
                   dateTime = None, hasGPS = False\<rparr>"

definition initialGPS :: GPSData where
  "initialGPS = \<lparr>latitude = None, longitude = None, altitude = None, latitudeRef = ''N'',
                  longitudeRef = ''E'', timestamp = None, datestamp = None, direction = None,
                  speed = None, accuracy = ''Unknown''\<rparr>"

subsection \<open>readExifString\<close>

text \<open>The character loop: it stops at a zero byte, and a read outside the buffer throws.\<close>

function readChars :: "byte list \<Rightarrow> nat \<Rightarrow> int \<Rightarrow> nat \<Rightarrow> string \<Rightarrow> jsError + string" where
  "readChars dv valueOffset n i str =
     (if int i < n
      then (case getUint8 dv (valueOffset + i) of
              Inl e \<Rightarrow> Inl e
            | Inr c \<Rightarrow> (if c = 0 then Inr str
                        else readChars dv valueOffset n (Suc i) (str @ [fromCharCode c])))
      else Inr str)"
  by pat_completeness auto
termination
  by (relation "measure (\<lambda>(dv, valueOffset, n, i, str). nat (n - int i))") auto

declare readChars.simps [simp del]

text \<open>
  \<open>Math.min(count - 1, 100)\<close> is \<open>-1\<close> for a count of 0. The whole body is inside
  \<open>try\<close>: any \<open>RangeError\<close> gives \<open>null\<close>, and so does an empty trimmed string.
\<close>

definition readExifString :: "byte list \<Rightarrow> nat \<Rightarrow> nat \<Rightarrow> bool \<Rightarrow> string option" where
  "readExifString dv entryOffset tiffStart littleEndian =
     (case bindE (getUint32 dv (entryOffset + 4) littleEndian) (\<lambda>count.
           bindE (if count \<le> 4 then Inr (entryOffset + 8)
                  else bindE (getUint32 dv (entryOffset + 8) littleEndian)
                         (\<lambda>v. Inr (tiffStart + v))) (\<lambda>valueOffset.
           readChars dv valueOffset (min (int count - 1) 100) 0 [])) of
        Inl e \<Rightarrow> None
      | Inr str \<Rightarrow> (if trim str = [] then None else Some (trim str)))"

subsection \<open>parseGPSIFD\<close>

text \<open>\<open>readGPSCoordinate\<close>: three rationals; a \<open>RangeError\<close> is caught and gives \<open>null\<close>.\<close>

definition readGPSCoordinate :: "byte list \<Rightarrow> nat \<Rightarrow> bool \<Rightarrow> jsnum option" where
  "readGPSCoordinate dv off littleEndian =
     (case bindE (getUint32 dv off littleEndian) (\<lambda>dn.
           bindE (getUint32 dv (off + 4) littleEndian) (\<lambda>dd.
           bindE (getUint32 dv (off + 8) littleEndian) (\<lambda>mn.
           bindE (getUint32 dv (off + 12) littleEndian) (\<lambda>md.
           bindE (getUint32 dv (off + 16) littleEndian) (\<lambda>sn.
           bindE (getUint32 dv (off + 20) littleEndian) (\<lambda>sd.
           Inr (jsAdd (jsAdd (jsDivide dn dd) (jsDivideBy (jsDivide mn md) 60))
                      (jsDivideBy (jsDivide sn sd) 3600)))))))) of
        Inl e \<Rightarrow> None
      | Inr v \<Rightarrow> Some v)"

text \<open>The ten characters of \<open>GPSDateStamp\<close>.\<close>

fun readDate :: "byte list \<Rightarrow> nat \<Rightarrow> nat \<Rightarrow> jsError + string" where
  "readDate dv valueOffset 0 = Inr []"
| "readDate dv valueOffset (Suc k) =
     bindE (readDate dv valueOffset k) (\<lambda>str.
     bindE (getUint8 dv (valueOffset + k)) (\<lambda>c. Inr (str @ [fromCharCode c])))"

text \<open>
  One turn of the loop over the entries of the GPS directory, in two parts. The first
  part reads the entry's tag, type and count and computes \<open>valueOffset\<close>; the second is
  the \<open>switch\<close> on the tag. Each turn reads, then assigns one field; a \<open>RangeError\<close> in
  the reads leaves \<open>gpsData\<close> as it was.
\<close>

definition gpsEntryHeader ::
  "byte list \<Rightarrow> nat \<Rightarrow> nat \<Rightarrow> bool \<Rightarrow> nat \<Rightarrow> jsError + (nat \<times> nat)" where
  "gpsEntryHeader dv ifdOffset tiffStart littleEndian i =
     (let entryOffset = ifdOffset + 2 + i * 12 in
      bindE (getUint16 dv entryOffset littleEndian) (\<lambda>tag.
      bindE (getUint16 dv (entryOffset + 2) littleEndian) (\<lambda>typ.
      bindE (getUint32 dv (entryOffset + 4) littleEndian) (\<lambda>numValues.
      bindE (if typ = 5 \<and> numValues * 8 > 4
             then bindE (getUint32 dv (entryOffset + 8) littleEndian)
                    (\<lambda>v. Inr (tiffStart + v))
             else Inr (entryOffset + 8)) (\<lambda>valueOffset.
      Inr (tag, valueOffset))))))"

definition gpsEntry ::
  "byte list \<Rightarrow> nat \<Rightarrow> nat \<Rightarrow> bool \<Rightarrow> nat \<Rightarrow> GPSData \<Rightarrow> jsError + GPSData" where
  "gpsEntry dv ifdOffset tiffStart littleEndian i g =
     bindE (gpsEntryHeader dv ifdOffset tiffStart littleEndian i) (\<lambda>(tag, valueOffset).
        if tag = 0x0001
        then bindE (getUint8 dv valueOffset) (\<lambda>c. Inr (g\<lparr>latitudeRef := [fromCharCode c]\<rparr>))
        else if tag = 0x0002
        then Inr (g\<lparr>latitude := readGPSCoordinate dv valueOffset littleEndian\<rparr>)
        else if tag = 0x0003
        then bindE (getUint8 dv valueOffset) (\<lambda>c. Inr (g\<lparr>longitudeRef := [fromCharCode c]\<rparr>))
        else if tag = 0x0004
        then Inr (g\<lparr>longitude := readGPSCoordinate dv valueOffset littleEndian\<rparr>)
        else if tag = 0x0006
        then bindE (getUint32 dv valueOffset littleEndian) (\<lambda>altNum.
             bindE (getUint32 dv (valueOffset + 4) littleEndian) (\<lambda>altDen.
             Inr (g\<lparr>altitude := (if altDen > 0 then Some (jsDivide altNum altDen) else None)\<rparr>)))
        else if tag = 0x0007
        then bindE (getUint32 dv valueOffset littleEndian) (\<lambda>hourNum.
             bindE (getUint32 dv (valueOffset + 4) littleEndian) (\<lambda>hourDen.
             bindE (getUint32 dv (valueOffset + 8) littleEndian) (\<lambda>minNum.
             bindE (getUint32 dv (valueOffset + 12) littleEndian) (\<lambda>minDen.
             bindE (getUint32 dv (valueOffset + 16) littleEndian) (\<lambda>secNum.
             bindE (getUint32 dv (valueOffset + 20) littleEndian) (\<lambda>secDen.
             Inr (g\<lparr>timestamp :=
                    Some (padStart2 (floorString (jsDivide hourNum hourDen)) @ '':''
                          @ padStart2 (floorString (jsDivide minNum minDen)) @ '':''
                          @ padStart2 (floorString (jsDivide secNum secDen)))\<rparr>)))))))
        else if tag = 0x0011
        then bindE (getUint32 dv valueOffset littleEndian) (\<lambda>dirNum.
             bindE (getUint32 dv (valueOffset + 4) littleEndian) (\<lambda>dirDen.
             Inr (g\<lparr>direction := (if dirDen > 0 then Some (jsDivide dirNum dirDen) else None)\<rparr>)))
        else if tag = 0x001D
        then bindE (readDate dv valueOffset 10) (\<lambda>dateStr.
             Inr (g\<lparr>datestamp := Some (map (\<lambda>c. if c = CHR '':'' then CHR ''-'' else c) dateStr)\<rparr>))
        else Inr g)"

text \<open>
  The loop over the entries. It returns the state it reached and whether it ran to its
  end (\<open>True\<close>) or was left by a \<open>RangeError\<close> (\<open>False\<close>).
\<close>

function gpsLoop ::
  "byte list \<Rightarrow> nat \<Rightarrow> nat \<Rightarrow> bool \<Rightarrow> nat \<Rightarrow> nat \<Rightarrow> GPSData \<Rightarrow> GPSData \<times> bool" where
  "gpsLoop dv ifdOffset tiffStart littleEndian count i g =
     (if i < count
      then (case gpsEntry dv ifdOffset tiffStart littleEndian i g of
              Inl e \<Rightarrow> (g, False)
            | Inr g' \<Rightarrow> gpsLoop dv ifdOffset tiffStart littleEndian count (Suc i) g')
      else (g, True))"
  by pat_completeness auto
termination
  by (relation "measure (\<lambda>(dv, ifdOffset, tiffStart, le, count, i, g). count - i)") auto

declare gpsLoop.simps [simp del]

text \<open>
  The statements after the loop, still inside \<open>try\<close>: the reference directions are
  applied and the accuracy is set.
\<close>

definition applyReferences :: "GPSData \<Rightarrow> GPSData" where
  "applyReferences g =
     (let g1 = (case latitude g of
                  Some v \<Rightarrow> (if latitudeRef g = ''S'' then g\<lparr>latitude := Some (jsNegate v)\<rparr> else g)
                | None \<Rightarrow> g);
          g2 = (case longitude g1 of
                  Some v \<Rightarrow> (if longitudeRef g1 = ''W'' then g1\<lparr>longitude := Some (jsNegate v)\<rparr> else g1)
                | None \<Rightarrow> g1)
      in if latitude g2 \<noteq> None \<and> longitude g2 \<noteq> None then g2\<lparr>accuracy := ''GPS''\<rparr> else g2)"

definition parseGPSIFD :: "byte list \<Rightarrow> nat \<Rightarrow> nat \<Rightarrow> bool \<Rightarrow> GPSData" where
  "parseGPSIFD dv ifdOffset tiffStart littleEndian =
     (case getUint16 dv ifdOffset littleEndian of
        Inl e \<Rightarrow> initialGPS
      | Inr count \<Rightarrow>
          (case gpsLoop dv ifdOffset tiffStart littleEndian count 0 initialGPS of
             (g, True) \<Rightarrow> applyReferences g
           | (g, False) \<Rightarrow> g))"

subsection \<open>parseExifGPS\<close>

text \<open>
  The loop over the entries of IFD0. Its state is the camera information, the date and
  the two directory pointers; a \<open>RangeError\<close> here is not caught in \<open>parseExifGPS\<close>.
\<close>

type_synonym ifd0State = "CameraInfo \<times> string option \<times> nat \<times> nat"

definition ifd0Entry ::
  "byte list \<Rightarrow> nat \<Rightarrow> nat \<Rightarrow> bool \<Rightarrow> nat \<Rightarrow> ifd0State \<Rightarrow> jsError + ifd0State" where
  "ifd0Entry dv ifd0Offset tiffStart littleEndian i st =
     (case st of (cam, dt, gpsIFDPointer, exifIFDPointer) \<Rightarrow>
      let entryOffset = ifd0Offset + 2 + i * 12 in
      bindE (getUint16 dv entryOffset littleEndian) (\<lambda>tag.
        if tag = 0x010F
        then Inr (cam\<lparr>cameraMake := readExifString dv entryOffset tiffStart littleEndian\<rparr>,
                  dt, gpsIFDPointer, exifIFDPointer)
        else if tag = 0x0110
        then Inr (cam\<lparr>cameraModel := readExifString dv entryOffset tiffStart littleEndian\<rparr>,
                  dt, gpsIFDPointer, exifIFDPointer)
        else if tag = 0x0131
        then Inr (cam\<lparr>cameraSoftware := readExifString dv entryOffset tiffStart littleEndian\<rparr>,
                  dt, gpsIFDPointer, exifIFDPointer)
        else if tag = 0x0132
        then Inr (cam, readExifString dv entryOffset tiffStart littleEndian,
                  gpsIFDPointer, exifIFDPointer)
        else if tag = 0x8825
        then bindE (getUint32 dv (entryOffset + 8) littleEndian)
               (\<lambda>p. Inr (cam, dt, p, exifIFDPointer))
        else if tag = 0x8769
        then bindE (getUint32 dv (entryOffset + 8) littleEndian)
               (\<lambda>p. Inr (cam, dt, gpsIFDPointer, p))
        else Inr st))"

function ifd0Loop ::
  "byte list \<Rightarrow> nat \<Rightarrow> nat \<Rightarrow> bool \<Rightarrow> nat \<Rightarrow> nat \<Rightarrow> ifd0State \<Rightarrow> jsError + ifd0State" where
  "ifd0Loop dv ifd0Offset tiffStart littleEndian count i st =
     (if i < count
      then (case ifd0Entry dv ifd0Offset tiffStart littleEndian i st of
              Inl e \<Rightarrow> Inl e
            | Inr st' \<Rightarrow> ifd0Loop dv ifd0Offset tiffStart littleEndian count (Suc i) st')
      else Inr st)"
  by pat_completeness auto
termination
  by (relation "measure (\<lambda>(dv, ifd0Offset, tiffStart, le, count, i, st). count - i)") auto

declare ifd0Loop.simps [simp del]

text \<open>The APP1 branch of the segment loop, from \<open>const length = ...\<close> to its \<open>break\<close>.\<close>

definition parseApp1 :: "byte list \<Rightarrow> nat \<Rightarrow> jsError + ExifResult" where
  "parseApp1 dv offs =
     bindE (getUint16 dv (offs + 2) False) (\<lambda>len.
     let exifStart = offs + 4 in
     bindE (getUint8 dv exifStart) (\<lambda>c0.
     bindE (getUint8 dv (exifStart + 1)) (\<lambda>c1.
     bindE (getUint8 dv (exifStart + 2)) (\<lambda>c2.
     bindE (getUint8 dv (exifStart + 3)) (\<lambda>c3.
       if map fromCharCode [c0, c1, c2, c3] = ''Exif''
       then (let tiffStart = exifStart + 6 in
             bindE (getUint16 dv tiffStart False) (\<lambda>byteOrder.
             let littleEndian = (byteOrder = 0x4949) in
             bindE (getUint32 dv (tiffStart + 4) littleEndian) (\<lambda>rel.
             let ifd0Offset = tiffStart + rel in
             bindE (getUint16 dv ifd0Offset littleEndian) (\<lambda>ifd0Count.
             bindE (ifd0Loop dv ifd0Offset tiffStart littleEndian ifd0Count 0
                      (cameraInfo emptyResult, None, 0, 0))
               (\<lambda>(cam, dt, gpsIFDPointer, exifIFDPointer).
                  if gpsIFDPointer > 0
                  then (let g = parseGPSIFD dv (tiffStart + gpsIFDPointer) tiffStart littleEndian
                        in Inr \<lparr>gpsData = Some g, cameraInfo = cam, dateTime = dt,
                                hasGPS = (latitude g \<noteq> None \<and> longitude g \<noteq> None)\<rparr>)
                  else Inr \<lparr>gpsData = None, cameraInfo = cam, dateTime = dt,
                            hasGPS = False\<rparr>)))))
       else Inr emptyResult)))))"

text \<open>
  The loop \<open>while (offset < dataView.byteLength - 2)\<close> over the marker segments. Only the
  APP1 branch changes \<open>result\<close>, and it leaves the loop, so every other exit returns the
  initial result.
\<close>

function scanSegments :: "byte list \<Rightarrow> nat \<Rightarrow> jsError + ExifResult" where
  "scanSegments dv offs =
     (if int offs < int (length dv) - 2
      then (case getUint16 dv offs False of
              Inl e \<Rightarrow> Inl e
            | Inr marker \<Rightarrow>
                (if marker = 0xFFE1 then parseApp1 dv offs
                 else if marker AND 0xFF00 = 0xFF00
                 then (case getUint16 dv (offs + 2) False of
                         Inl e \<Rightarrow> Inl e
                       | Inr len \<Rightarrow> scanSegments dv (offs + 2 + len))
                 else Inr emptyResult))
      else Inr emptyResult)"
  by pat_completeness auto
termination
  by (relation "measure (\<lambda>(dv, offs). length dv - offs)") auto

declare scanSegments.simps [simp del]

definition parseExifGPS :: "byte list \<Rightarrow> jsError + ExifResult" where
  "parseExifGPS arrayBuffer =
     bindE (getUint16 arrayBuffer 0 False) (\<lambda>soi.
       if soi \<noteq> 0xFFD8 then Inr emptyResult else scanSegments arrayBuffer 2)"

text \<open>
  A 136-byte JPEG with an EXIF segment (big-endian TIFF). IFD0 has one entry, the pointer
  to the GPS directory; the GPS directory has three entries: GPSLatitude
  \<open>40/1, 26/1, 46/0\<close>, GPSAltitude \<open>100/0\<close> and GPSTimeStamp \<open>12/1, 0/0, 5/0\<close>.
\<close>

definition exifZeroDenominators :: "byte list" where
  "exifZeroDenominators =
     [0xFF, 0xD8, 0xFF, 0xE1, 0x00, 0x86, 0x45, 0x78, 0x69, 0x66, 0x00, 0x00,
      0x4D, 0x4D, 0x00, 0x2A, 0x00, 0x00, 0x00, 0x08,
      0x00, 0x01,
      0x88, 0x25, 0x00, 0x04, 0x00, 0x00, 0x00, 0x01, 0x00, 0x00, 0x00, 0x1A,
      0x00, 0x00, 0x00, 0x00,
      0x00, 0x03,
      0x00, 0x02, 0x00, 0x05, 0x00, 0x00, 0x00, 0x03, 0x00, 0x00, 0x00, 0x44,
      0x00, 0x06, 0x00, 0x05, 0x00, 0x00, 0x00, 0x01, 0x00, 0x00, 0x00, 0x5C,
      0x00, 0x07, 0x00, 0x05, 0x00, 0x00, 0x00, 0x03, 0x00, 0x00, 0x00, 0x64,
      0x00, 0x00, 0x00, 0x00,
      0x00, 0x00, 0x00, 0x28, 0x00, 0x00, 0x00, 0x01,
      0x00, 0x00, 0x00, 0x1A, 0x00, 0x00, 0x00, 0x01,
      0x00, 0x00, 0x00, 0x2E, 0x00, 0x00, 0x00, 0x00,
      0x00, 0x00, 0x00, 0x64, 0x00, 0x00, 0x00, 0x00,
      0x00, 0x00, 0x00, 0x0C, 0x00, 0x00, 0x00, 0x01,
      0x00, 0x00, 0x00, 0x00, 0x00, 0x00, 0x00, 0x00,
      0x00, 0x00, 0x00, 0x05, 0x00, 0x00, 0x00, 0x00]"


definition gpsDirectorySouth :: "byte list" where
  "gpsDirectorySouth =
     [0x00, 0x02,
      0x00, 0x01, 0x00, 0x02, 0x00, 0x00, 0x00, 0x02, 0x53, 0x00, 0x00, 0x00,
      0x00, 0x02, 0x00, 0x05, 0x00, 0x00, 0x00, 0x03, 0x00, 0x00, 0x00, 0x1E,
      0x00, 0x00, 0x00, 0x00,
      0x00, 0x00, 0x00, 0x28, 0x00, 0x00, 0x00, 0x01,
      0x00, 0x00, 0x00, 0x1A, 0x00, 0x00, 0x00, 0x01,
      0x00, 0x00, 0x00, 0x2E, 0x00, 0x00, 0x00, 0x01]"

section \<open>Properties of the file carver\<close>

lemma findFooterLoop_bound:
  "findFooterLoop data ftr searchEnd i = Some e \<Longrightarrow> int e < searchEnd + int (length ftr) \<and> i + length ftr \<le> e"
proof (induction data ftr searchEnd i rule: findFooterLoop.induct)
  case (1 data ftr searchEnd i)
  show ?case
  proof (cases "int i < searchEnd")
    case False
    with "1.prems" show ?thesis by (simp add: findFooterLoop.simps)
  next
    case True
    show ?thesis
    proof (cases "bytesMatch data i ftr")
      case True
      with \<open>int i < searchEnd\<close> "1.prems" show ?thesis
        by (simp add: findFooterLoop.simps [of data ftr searchEnd i])
    next
      case False
      with \<open>int i < searchEnd\<close> "1.prems"
      have "findFooterLoop data ftr searchEnd (Suc i) = Some e"
        by (simp add: findFooterLoop.simps [of data ftr searchEnd i])
      with "1.IH" [OF \<open>int i < searchEnd\<close> False] show ?thesis by simp
    qed
  qed
qed

lemma findFooter_bound:
  "findFooter data s ftr m = Some e \<Longrightarrow> e < length data \<and> s + 10 + length ftr \<le> e"
  using findFooterLoop_bound [of data ftr "min (int s + int m) (int (length data) - int (length ftr))" "s + 10" e]
  unfolding findFooter_def Let_def by linarith

lemma carveEnd_bound:
  assumes "carveEnd data i sig = (e, c)" shows "e \<le> length data"
proof (cases "footer sig")
  case None
  with assms show ?thesis by (auto simp: carveEnd_def)
next
  case (Some ftr)
  show ?thesis
  proof (cases "findFooter data i ftr (orDefault (maxSize sig) 10000000)")
    case None
    with Some assms show ?thesis by (auto simp: carveEnd_def)
  next
    case (Some e')
    from findFooter_bound [OF Some] \<open>footer sig = Some ftr\<close> Some assms show ?thesis
      by (auto simp: carveEnd_def)
  qed
qed

lemma trySignatures_file:
  "trySignatures data i sigs = Some (f, e) \<Longrightarrow>
     offset f = i \<and> csize f = int e - int i \<and> e \<le> length data \<and> i < e
     \<and> cdata f = take (e - i) (drop i data) \<and> 100 < csize f"
proof (induction sigs)
  case Nil
  then show ?case by simp
next
  case (Cons sig sigs)
  obtain e' c' where ce: "carveEnd data i sig = (e', c')" by (cases "carveEnd data i sig")
  have e': "e' \<le> length data" using carveEnd_bound [OF ce] .
  show ?case
  proof (cases "matchHeader data i (header sig) \<and> int e' - int i > 100
                 \<and> int e' - int i < int (orDefault (maxSize sig) 100000000)")
    case True
    with Cons.prems ce have "e = e'" and "f = \<lparr>ctype = name sig, cextension = extension sig, offset = i,
                           csize = int e' - int i, cdata = take (e' - i) (drop i data),
                           ccategory = category sig, confidence = c'\<rparr>"
      by (auto simp add: Let_def)
    with True e' show ?thesis by simp
  next
    case False
    with Cons.prems ce have "trySignatures data i sigs = Some (f, e)"
      by (simp add: Let_def split: if_splits)
    with Cons.IH show ?thesis .
  qed
qed


lemma carveLoop_invariant:
  "(\<forall>j f e. trySignatures data j sigs = Some (f, e) \<longrightarrow> P f) \<Longrightarrow>
   (\<forall>f \<in> set carved. P f) \<Longrightarrow> (\<forall>f \<in> set (carveLoop data sigs i carved). P f)"
proof (induction data sigs i carved rule: carveLoop.induct)
  case (1 data sigs i carved)
  note IH = "1.IH" and step = "1.prems"(1) and acc = "1.prems"(2)
  show ?case
  proof (cases "i < length data")
    case False
    then have "carveLoop data sigs i carved = carved"
      by (simp add: carveLoop.simps [of data sigs i carved])
    with acc show ?thesis by simp
  next
    case True
    show ?thesis
    proof (cases "trySignatures data i sigs")
      case None
      with True have eq: "carveLoop data sigs i carved = carveLoop data sigs (Suc i) carved"
        by (simp add: carveLoop.simps [of data sigs i carved])
      show ?thesis unfolding eq by (rule IH(1) [OF True None step acc])
    next
      case (Some fe)
      obtain f e where fe: "fe = (f, e)" by (cases fe)
      with True Some
      have eq: "carveLoop data sigs i carved = carveLoop data sigs e (carved @ [f])"
        by (simp add: carveLoop.simps [of data sigs i carved])
      from Some fe step have "P f" by blast
      with acc have acc': "\<forall>g \<in> set (carved @ [f]). P g" by simp
      show ?thesis unfolding eq by (rule IH(2) [OF True Some fe [symmetric] step acc'])
    qed
  qed
qed




text \<open>
  C1. Every file returned by \<open>carveFiles\<close>, for every buffer and every selection of
  categories, starts at a non-negative offset and ends inside the buffer:
  \<open>offset + size \<le> data.length\<close>. The bytes sliced out for it are exactly \<open>size\<close> many,
  so the slice was not cut short by the end of the buffer.
\<close>

theorem carveFiles_in_range:
  "\<forall>f \<in> set (carveFiles data cats).
      0 \<le> int (offset f) \<and> int (offset f) + csize f \<le> int (length data)
      \<and> csize f = int (length (cdata f))"
  unfolding carveFiles_def
proof (rule carveLoop_invariant)
  show "\<forall>j f e. trySignatures data j (filter (\<lambda>sig. category sig \<in> cats) fileSignatures) = Some (f, e)
    \<longrightarrow> 0 \<le> int (offset f) \<and> int (offset f) + csize f \<le> int (length data)
      \<and> csize f = int (length (cdata f))"
    using trySignatures_file by fastforce
next
  show "\<forall>f\<in>set []. 0 \<le> int (offset f) \<and> int (offset f) + csize f \<le> int (length data)
      \<and> csize f = int (length (cdata f))" by simp
qed

lemma carveFiles_bmp101:
  "carveFiles bmp101 {Image} =
     [\<lparr>ctype = ''BMP'', cextension = ''bmp'', offset = 0, csize = 101,
       cdata = bmp101, ccategory = Image, confidence = 60\<rparr>]"
  by (simp add: carveFiles_def carveLoop.simps fileSignatures_def mkSig_def matchHeader_def
      byteAt_def bmp101_def carveEnd_def orDefault_def)

theorem carveFiles_in_range_witness:
  "carveFiles bmp101 {Image} \<noteq> []
   \<and> int (offset (hd (carveFiles bmp101 {Image}))) + csize (hd (carveFiles bmp101 {Image}))
        \<le> int (length bmp101)
   \<and> csize (hd (carveFiles bmp101 {Image})) = int (length (cdata (hd (carveFiles bmp101 {Image}))))"
proof -
  have ne: "carveFiles bmp101 {Image} \<noteq> []" by (simp add: carveFiles_bmp101)
  then have "hd (carveFiles bmp101 {Image}) \<in> set (carveFiles bmp101 {Image})" by simp
  with carveFiles_in_range [of bmp101 "{Image}"] ne show ?thesis by blast
qed







subsection \<open>No read outside the buffer\<close>

lemma carveLoopC_eq: "carveLoopC data sigs i carved = Inr (carveLoop data sigs i carved)"
proof (induction data sigs i carved rule: carveLoop.induct)
  case (1 data sigs i carved)
  show ?case
  proof (cases "i < length data")
    case False
    then show ?thesis
      by (simp add: carveLoopC.simps [of data sigs i carved] carveLoop.simps [of data sigs i carved])
  next
    case True
    show ?thesis
    proof (cases "trySignatures data i sigs")
      case None
      with True "1.IH"(1) [OF True None] show ?thesis
        by (simp add: carveLoopC.simps [of data sigs i carved]
            carveLoop.simps [of data sigs i carved] trySignaturesC_eq)
    next
      case (Some fe)
      obtain f e where fe: "fe = (f, e)" by (cases fe)
      with True Some "1.IH"(2) [OF True Some fe [symmetric]] show ?thesis
        by (simp add: carveLoopC.simps [of data sigs i carved]
            carveLoop.simps [of data sigs i carved] trySignaturesC_eq)
    qed
  qed
qed

text \<open>
  C9. A header matches at an offset only if it lies wholly inside the buffer; and the
  checked forms of \<open>matchHeader\<close>, \<open>findFooter\<close> and \<open>carveFiles\<close> never fault, for any
  buffer, offset, pattern, size cap and category selection: they return what the
  unchecked forms return, so no index at or past \<open>data.length\<close> is read. Both forms are
  total: their loops are defined with termination proofs.
\<close>

theorem carve_bounds_safe:
  "(matchHeader data offs hdr \<longrightarrow> offs + length hdr \<le> length data)
   \<and> matchHeaderC data offs hdr = Inr (matchHeader data offs hdr)
   \<and> findFooterC data startOffset ftr maxSz = Inr (findFooter data startOffset ftr maxSz)
   \<and> carveFilesC data cats = Inr (carveFiles data cats)"
  by (simp add: matchHeaderC_eq findFooterC_eq carveFilesC_def carveFiles_def carveLoopC_eq)
     (simp add: matchHeader_def)


theorem carve_bounds_safe_witness:
  "matchHeader bmp101 0 [0x42, 0x4D] \<and> 0 + length [0x42, 0x4D :: byte] \<le> length bmp101
   \<and> carveFilesC bmp101 {Image} =
       Inr [\<lparr>ctype = ''BMP'', cextension = ''bmp'', offset = 0, csize = 101,
             cdata = bmp101, ccategory = Image, confidence = 60\<rparr>]"
proof -
  have m: "matchHeader bmp101 0 [0x42, 0x4D]"
    by (simp add: matchHeader_def bmp101_def byteAt_def)
  with carve_bounds_safe [of bmp101 0 "[0x42, 0x4D]" 0 "[]" 0 "{Image}"] show ?thesis
    by (simp add: carveFiles_bmp101)
qed

section \<open>Properties of the signature detector\<close>

lemma hexVal_hexDigit: "n < 16 \<Longrightarrow> hexVal (hexDigit n) = n"
proof -
  have "\<forall>n<16. hexVal (hexDigit n) = n"
    by (simp add: eval_nat_numeral All_less_Suc hexDigit_def hexVal_def)
  then show "n < 16 \<Longrightarrow> hexVal (hexDigit n) = n" by blast
qed


lemma headerBytes_toHex2: "headerBytes (toHex2 b @ rest) = b # headerBytes rest"
proof -
  have lt: "unat b < 256" using unsigned_less [of b, where 'a = nat] by simp
  then have d: "unat b div 16 < 16" and m: "unat b mod 16 < 16" by simp_all
  have "(of_nat (unat b div 16 * 16 + unat b mod 16) :: byte) = of_nat (unat b)"
    by simp
  then show ?thesis
    by (simp add: toHex2_def hexVal_hexDigit [OF d] hexVal_hexDigit [OF m])
qed

lemma headerBytes_toHex: "headerBytes (toHex bs) = bs"
  by (induction bs) (simp_all add: toHex_def headerBytes_toHex2)

lemma toHex2_inj: "toHex2 x = toHex2 y \<Longrightarrow> x = y"
  using headerBytes_toHex2 [of x "[]"] headerBytes_toHex2 [of y "[]"] by simp

lemma toHex_Cons: "toHex (x # xs) = toHex2 x @ toHex xs"
  by (simp add: toHex_def)

lemma toHex_prefix: "prefix (toHex xs) (toHex ys) \<longleftrightarrow> prefix xs ys"
proof
  assume "prefix xs ys"
  then obtain zs where "ys = xs @ zs" by (auto simp: prefix_def)
  then show "prefix (toHex xs) (toHex ys)" by (simp add: toHex_def)
next
  assume "prefix (toHex xs) (toHex ys)"
  then show "prefix xs ys"
  proof (induction xs arbitrary: ys)
    case Nil
    show ?case by simp
  next
    case (Cons x xs)
    show ?case
    proof (cases ys)
      case Nil
      with Cons.prems show ?thesis by (simp add: toHex_def toHex2_def)
    next
      case (Cons y ys')
      with Cons.prems have "toHex2 x = toHex2 y" and "prefix (toHex xs) (toHex ys')"
        by (simp_all add: toHex_Cons toHex2_def)
      with Cons.IH [of ys'] toHex2_inj Cons show ?thesis by auto
    qed
  qed
qed

lemma catalog_hex_wellformed:
  "\<forall>s \<in> set detectorSignatures. toHex (headerBytes (hex s)) = hex s"
  by (simp add: detectorSignatures_def mkDet_def hexVal_def toHex_def toHex2_def hexDigit_def)

lemma catalog_prefix_bytes:
  assumes "s \<in> set detectorSignatures"
  shows "prefix (hex s) (toHex obs) \<longleftrightarrow> prefix (headerBytes (hex s)) obs"
proof -
  from assms catalog_hex_wellformed have "toHex (headerBytes (hex s)) = hex s" by blast
  then have "prefix (hex s) (toHex obs) \<longleftrightarrow> prefix (toHex (headerBytes (hex s))) (toHex obs)"
    by simp
  then show ?thesis by (simp add: toHex_prefix)
qed

lemma detectLoop_None: "detectLoop sigs h = None \<longleftrightarrow> (\<forall>s \<in> set sigs. \<not> prefix (hex s) h)"
  by (induction sigs) auto

lemma detectLoop_Some:
  "detectLoop sigs h = Some s \<longleftrightarrow>
     (\<exists>k<length sigs. sigs ! k = s \<and> prefix (hex s) h \<and> (\<forall>j<k. \<not> prefix (hex (sigs ! j)) h))"
proof (induction sigs)
  case Nil
  show ?case by simp
next
  case (Cons a sigs)
  show ?case
  proof (cases "prefix (hex a) h")
    case True
    show ?thesis
    proof
      assume "detectLoop (a # sigs) h = Some s"
      with True have "a = s" by simp
      with True show "\<exists>k<length (a # sigs). (a # sigs) ! k = s \<and> prefix (hex s) h
            \<and> (\<forall>j<k. \<not> prefix (hex ((a # sigs) ! j)) h)"
        by (intro exI [of _ 0]) simp
    next
      assume "\<exists>k<length (a # sigs). (a # sigs) ! k = s \<and> prefix (hex s) h
            \<and> (\<forall>j<k. \<not> prefix (hex ((a # sigs) ! j)) h)"
      then obtain k where k: "k < length (a # sigs)" "(a # sigs) ! k = s"
        "\<forall>j<k. \<not> prefix (hex ((a # sigs) ! j)) h" by blast
      have "k = 0"
      proof (rule ccontr)
        assume "k \<noteq> 0"
        then have "0 < k" by simp
        with k(3) have "\<not> prefix (hex ((a # sigs) ! 0)) h" by blast
        with True show False by simp
      qed
      with k True show "detectLoop (a # sigs) h = Some s" by simp
    qed
  next
    case False
    have "(\<exists>k<length (a # sigs). (a # sigs) ! k = s \<and> prefix (hex s) h
            \<and> (\<forall>j<k. \<not> prefix (hex ((a # sigs) ! j)) h))
        \<longleftrightarrow> (\<exists>k<length sigs. sigs ! k = s \<and> prefix (hex s) h
            \<and> (\<forall>j<k. \<not> prefix (hex (sigs ! j)) h))" (is "?L \<longleftrightarrow> ?R")
    proof
      assume ?L
      then obtain k where k: "k < length (a # sigs)" "(a # sigs) ! k = s" "prefix (hex s) h"
        "\<forall>j<k. \<not> prefix (hex ((a # sigs) ! j)) h" by blast
      with False have "k \<noteq> 0" by (cases k) auto
      then obtain k' where k': "k = Suc k'" by (cases k) auto
      have "\<forall>j<k'. \<not> prefix (hex (sigs ! j)) h"
      proof (intro allI impI)
        fix j assume "j < k'"
        then have "Suc j < k" using k' by simp
        with k(4) have "\<not> prefix (hex ((a # sigs) ! Suc j)) h" by blast
        then show "\<not> prefix (hex (sigs ! j)) h" by simp
      qed
      with k k' show ?R by (intro exI [of _ k']) simp
    next
      assume ?R
      then obtain k where k: "k < length sigs" "sigs ! k = s" "prefix (hex s) h"
        "\<forall>j<k. \<not> prefix (hex (sigs ! j)) h" by blast
      have "\<forall>j<Suc k. \<not> prefix (hex ((a # sigs) ! j)) h"
      proof (intro allI impI)
        fix j assume "j < Suc k"
        with k(4) False show "\<not> prefix (hex ((a # sigs) ! j)) h" by (cases j) auto
      qed
      with k show ?L by (intro exI [of _ "Suc k"]) simp
    qed
    with False Cons.IH show ?thesis by simp
  qed
qed





text \<open>
  C5. The detection loop returns a signature exactly when it is the first one, in the
  order of the list it is given, whose hexadecimal header is a prefix of the header
  string: an earlier entry that matches wins over a later one. For the catalog, in
  bytes: the detected type is the first catalog entry whose header bytes are a prefix
  of the first 8 bytes of the buffer, and none when no entry is.
\<close>

theorem detect_first_match:
  "(detectLoop sigs h = Some s \<longleftrightarrow>
      (\<exists>k<length sigs. sigs ! k = s \<and> prefix (hex s) h
         \<and> (\<forall>j<k. \<not> prefix (hex (sigs ! j)) h)))
   \<and> (case detectedType (detectSignature buf ext) of
        None \<Rightarrow> \<forall>s \<in> set detectorSignatures. \<not> prefix (headerBytes (hex s)) (take 8 buf)
      | Some s \<Rightarrow>
          \<exists>k<length detectorSignatures. detectorSignatures ! k = s
            \<and> prefix (headerBytes (hex s)) (take 8 buf)
            \<and> (\<forall>j<k. \<not> prefix (headerBytes (hex (detectorSignatures ! j))) (take 8 buf)))"
proof (intro conjI)
  show "detectLoop sigs h = Some s \<longleftrightarrow>
      (\<exists>k<length sigs. sigs ! k = s \<and> prefix (hex s) h
         \<and> (\<forall>j<k. \<not> prefix (hex (sigs ! j)) h))"
    by (rule detectLoop_Some)
next
  define obs where "obs = take 8 buf"
  have dt: "detectedType (detectSignature buf ext) = detectLoop detectorSignatures (toHex obs)"
    by (simp add: detectSignature_def Let_def obs_def)
  show "case detectedType (detectSignature buf ext) of
        None \<Rightarrow> \<forall>s \<in> set detectorSignatures. \<not> prefix (headerBytes (hex s)) (take 8 buf)
      | Some s \<Rightarrow>
          \<exists>k<length detectorSignatures. detectorSignatures ! k = s
            \<and> prefix (headerBytes (hex s)) (take 8 buf)
            \<and> (\<forall>j<k. \<not> prefix (headerBytes (hex (detectorSignatures ! j))) (take 8 buf))"
  proof (cases "detectLoop detectorSignatures (toHex obs)")
    case None
    then have "\<forall>s \<in> set detectorSignatures. \<not> prefix (hex s) (toHex obs)"
      by (simp add: detectLoop_None)
    then have "\<forall>s \<in> set detectorSignatures. \<not> prefix (headerBytes (hex s)) obs"
      by (simp add: catalog_prefix_bytes)
    with None dt show ?thesis by (simp add: obs_def)
  next
    case (Some s)
    then obtain k where k: "k < length detectorSignatures" "detectorSignatures ! k = s"
      "prefix (hex s) (toHex obs)" "\<forall>j<k. \<not> prefix (hex (detectorSignatures ! j)) (toHex obs)"
      using detectLoop_Some [of detectorSignatures "toHex obs" s] by blast
    from k(1,2) have "s \<in> set detectorSignatures" by auto
    with k(3) have p: "prefix (headerBytes (hex s)) obs" by (simp add: catalog_prefix_bytes)
    have "\<forall>j<k. \<not> prefix (headerBytes (hex (detectorSignatures ! j))) obs"
    proof (intro allI impI)
      fix j assume j: "j < k"
      with k(1) have "detectorSignatures ! j \<in> set detectorSignatures" by simp
      from catalog_prefix_bytes [OF this, of obs] k(4) j
      show "\<not> prefix (headerBytes (hex (detectorSignatures ! j))) obs"
        by blast
    qed
    with k(1,2) p have "\<exists>k<length detectorSignatures. detectorSignatures ! k = s
            \<and> prefix (headerBytes (hex s)) obs
            \<and> (\<forall>j<k. \<not> prefix (headerBytes (hex (detectorSignatures ! j))) obs)"
      by blast
    with Some dt show ?thesis by (simp add: obs_def)
  qed
qed

theorem detect_first_match_witness:
  "detectLoop [mkDet ''FFD8'' ''A'', mkDet ''FFD8FFE0'' ''B''] ''FFD8FFE000104A46''
     = Some (mkDet ''FFD8'' ''A'')
   \<and> (\<exists>k<length [mkDet ''FFD8'' ''A'', mkDet ''FFD8FFE0'' ''B''].
         [mkDet ''FFD8'' ''A'', mkDet ''FFD8FFE0'' ''B''] ! k = mkDet ''FFD8'' ''A''
         \<and> prefix (hex (mkDet ''FFD8'' ''A'')) ''FFD8FFE000104A46''
         \<and> (\<forall>j<k. \<not> prefix (hex ([mkDet ''FFD8'' ''A'', mkDet ''FFD8FFE0'' ''B''] ! j))
                     ''FFD8FFE000104A46''))"
proof -
  have "detectLoop [mkDet ''FFD8'' ''A'', mkDet ''FFD8FFE0'' ''B''] ''FFD8FFE000104A46''
     = Some (mkDet ''FFD8'' ''A'')"
    by (simp add: mkDet_def)
  with detect_first_match [of "[mkDet ''FFD8'' ''A'', mkDet ''FFD8FFE0'' ''B'']"
      "''FFD8FFE000104A46''" "mkDet ''FFD8'' ''A''" "[]" "[]"]
  show ?thesis by blast
qed

section \<open>Properties of the FAT parser\<close>



lemma fatImage_parse:
  "parseFAT fatImage =
     \<lparr>files = [],
      deletedFiles =
        [\<lparr>entryName = ''_ELETED.TXT'', entryPath = ''/_ELETED.TXT'', entrySize = 1000,
          isDirectory = False, isDeleted = True, cluster = 3, attributes = [],
          recoverable = True, fragmentStatus = Partial\<rparr>],
      clusterSize = Some 128, fatType = Some ''FAT32'', ntfsVersion = None\<rparr>"
  by (simp add: parseFAT_def fatLoop.simps fatImage_def rootDirStart_def rootEntryCount_def
      byteAt_def le16_def le32_def toInt32_def reservedSectors_def bytesPerSector_def nth_append
      slice_def fromCharCodes_def fromCharCode_def char_of_def bit_0 deletedEntry_def
      activeEntry_def push_def trim_def isWhiteSpace_def Let_def)


section \<open>Properties of the NTFS parser\<close>






section \<open>Properties of the EXIF and GPS extractor\<close>

lemmas exif_eval =
  parseExifGPS_def scanSegments.simps parseApp1_def ifd0Loop.simps ifd0Entry_def
  parseGPSIFD_def gpsLoop.simps gpsEntry_def gpsEntryHeader_def readGPSCoordinate_def
  readExifString_def readChars.simps getUint8_def getUint16_def getUint32_def jsDivide_def
  applyReferences_def initialGPS_def emptyResult_def fromCharCode_def char_of_def bit_0
  padStart2_def showNat.simps trim_def isWhiteSpace_def Let_def

text \<open>
  C3 on the code. With a zero denominator, GPSAltitude (and GPSImgDirection, which has
  the same test \<open>den > 0\<close>) is none; but GPSLatitude, GPSLongitude and GPSTimeStamp
  divide without a test. In the buffer \<open>exifZeroDenominators\<close> the latitude's seconds are
  \<open>46/0\<close> and the time stamp's minutes and seconds are \<open>0/0\<close> and \<open>5/0\<close>: the latitude
  comes out as \<open>Infinity\<close> and the time stamp as the text \<open>12:NaN:Infinity\<close>, not none.
\<close>

theorem exif_zero_denominators:
  "parseExifGPS exifZeroDenominators =
     Inr \<lparr>gpsData =
            Some \<lparr>latitude = Some PosInfinity, longitude = None, altitude = None,
                   latitudeRef = ''N'', longitudeRef = ''E'',
                   timestamp = Some ''12:NaN:Infinity'', datestamp = None,
                   direction = None, speed = None, accuracy = ''Unknown''\<rparr>,
          cameraInfo = \<lparr>cameraMake = None, cameraModel = None, cameraSoftware = None\<rparr>,
          dateTime = None, hasGPS = False\<rparr>"
  by (simp add: exifZeroDenominators_def exif_eval)


























lemma gpsDirectorySouth_parse:
  "parseGPSIFD gpsDirectorySouth 0 0 False =
     initialGPS\<lparr>latitude := Some (Finite (- 72803 / 1800)), latitudeRef := ''S''\<rparr>"
  by (simp add: gpsDirectorySouth_def exif_eval)



end
